theory Spec2Isabelle
  imports Main "HOL-Library.Sublist"
begin

section \<open>The external-editor commands of \<open>CurCommandDispatcher\<close>\<close>

text \<open>
  A shallow embedding of \<open>editor\<close>, \<open>_editor_cleanup\<close>, \<open>on_editor_closed\<close> and
  \<open>on_editor_error\<close> of \<open>qutebrowser/browser/curcommand.py\<close>. Each method becomes a
  function from the state of the world (files, descriptors, page elements, started
  processes) to a result and the new state; an exception leaving the method is the
  \<open>Inl\<close> result. Calls to \<open>logging.debug\<close> have no effect on that state and are left
  out.
\<close>

subsection \<open>Python strings\<close>

text \<open>
  The names, messages and arguments that the commands only pass along are HOL
  strings. The texts whose characters the commands look at (the contents of files, the
  values of elements, the scripts given to the page) are lists of Unicode code points,
  so that a text may hold any character of a Python \<open>str\<close>.
\<close>

datatype codepoint = CP nat

type_synonym ustring = "codepoint list"

abbreviation ch :: "char \<Rightarrow> codepoint" where "ch c \<equiv> CP (of_char c)"

definition ustr :: "string \<Rightarrow> ustring" where
  "ustr cs = map (\<lambda>c. ch c) cs"

abbreviation LF :: codepoint where "LF \<equiv> CP 0x0A"
abbreviation CR :: codepoint where "CR \<equiv> CP 0x0D"
abbreviation squote :: codepoint where "squote \<equiv> CP 0x27"
abbreviation backslash :: codepoint where "backslash \<equiv> CP 0x5C"
abbreviation LS :: codepoint where "LS \<equiv> CP 0x2028"
abbreviation PS :: codepoint where "PS \<equiv> CP 0x2029"

text \<open>
  \<open>s.replace(old, new)\<close>: every occurrence of \<open>old\<close>, found from the left and not
  overlapping an earlier one, becomes \<open>new\<close>; the text put in is not searched again.
  With an empty \<open>old\<close> Python puts \<open>new\<close> before every character and at the end.
\<close>

function replace :: "string \<Rightarrow> string \<Rightarrow> string \<Rightarrow> string" where
  "replace old new [] = (if old = [] then new else [])"
| "replace old new (c # cs) =
     (if old = [] then new @ c # replace old new cs
      else if take (length old) (c # cs) = old
        then new @ replace old new (drop (length old) (c # cs))
      else c # replace old new cs)"
  by pat_completeness auto
termination
  by (relation "measure (\<lambda>(old, new, s). length s)") auto

text \<open>\<open>sep.join(xs)\<close>.\<close>

fun join :: "'a list \<Rightarrow> 'a list list \<Rightarrow> 'a list" where
  "join sep [] = []"
| "join sep [x] = x"
| "join sep (x # y # ys) = x @ sep @ join sep (y # ys)"

text \<open>
  A file opened with \<open>open(filename, 'r', encoding='utf-8')\<close> is read with universal
  newlines: every carriage return followed by a line feed, and every other carriage
  return, reaches the program as one line feed.
\<close>

fun universal_newlines :: "ustring \<Rightarrow> ustring" where
  "universal_newlines [] = []"
| "universal_newlines [c] = (if c = CR then [LF] else [c])"
| "universal_newlines (c # d # cs) =
     (if c = CR \<and> d = LF then LF # universal_newlines cs
      else if c = CR then LF # universal_newlines (d # cs)
      else c # universal_newlines (d # cs))"

text \<open>
  The lines of a text, each with its terminating line feed; a last line without a line
  feed is kept when it is not empty.
\<close>

fun split_lines :: "ustring \<Rightarrow> ustring list" where
  "split_lines [] = []"
| "split_lines (c # cs) =
     (if c = LF then [c] # split_lines cs
      else (case split_lines cs of [] \<Rightarrow> [c] # [] | l # ls \<Rightarrow> (c # l) # ls))"

text \<open>
  \<open>f.readlines()\<close> and \<open>f.read()\<close> on a file opened in that way, whose stored text is
  \<open>content\<close>: the lines, and the whole, of the text with its newlines translated.
\<close>

definition readlines :: "ustring \<Rightarrow> ustring list" where
  "readlines content = split_lines (universal_newlines content)"

definition read :: "ustring \<Rightarrow> ustring" where
  "read content = universal_newlines content"

text \<open>\<open>'{}'.format(i)\<close> for an integer \<open>i\<close>: its decimal digits, with a sign.\<close>

fun digits :: "nat \<Rightarrow> string" where
  "digits n =
     (if n < 10 then [''0123456789'' ! n]
      else digits (n div 10) @ [''0123456789'' ! (n mod 10)])"

declare digits.simps [simp del]

definition str_int :: "int \<Rightarrow> string" where
  "str_int i = (if i < 0 then CHR ''-'' # digits (nat (- i)) else digits (nat i))"

subsection \<open>The world the commands act on\<close>

text \<open>
  Exceptions that can leave the four methods. \<open>CommandError\<close> is the one the command
  layer shows to the user; the others are Python's own.
\<close>

datatype error =
    CommandError string
  | OSError string
  | PermissionError string
  | FileNotFoundError string
  | KeyError int
  | IndexError

datatype exit_status = NormalExit | CrashExit

text \<open>
  A \<open>QWebElement\<close> is a reference into the page, or the null element (\<open>None\<close>).
  The page maps the references of its live elements to their \<open>value\<close>; a reference
  the page no longer knows is null as well.
\<close>

type_synonym elem = "nat option"

record world =
  files :: "string \<rightharpoonup> ustring"
  undeletable :: "string set"
  unwritable :: "string set"
  fds :: "nat set"
  tmp_supply :: "(nat \<times> string) list"
  page :: "nat \<rightharpoonup> ustring"
  focused :: elem
  config_editor :: "string list"
  procs :: "(string \<times> string list) list"

text \<open>
  \<open>files\<close> gives the stored text of every existing file, the decoding of its
  bytes, before any translation of newlines; \<open>undeletable\<close> and \<open>unwritable\<close> are
  the paths the operating system refuses to remove or to open for writing; \<open>fds\<close>
  are the open descriptors;
  \<open>tmp_supply\<close> holds the descriptors and names \<open>mkstemp\<close> will hand out (none left:
  it fails); \<open>config_editor\<close> is \<open>config.get('general', 'editor')\<close>; \<open>procs\<close> lists the
  processes started so far.
\<close>

subsection \<open>Operating system and page\<close>

definition os_close :: "nat \<Rightarrow> world \<Rightarrow> (error + unit) \<times> world" where
  "os_close h s =
     (if h \<in> fds s then (Inr (), s\<lparr>fds := fds s - {h}\<rparr>)
      else (Inl (OSError ''Bad file descriptor''), s))"

definition os_remove :: "string \<Rightarrow> world \<Rightarrow> (error + unit) \<times> world" where
  "os_remove f s =
     (if files s f = None then (Inl (FileNotFoundError f), s)
      else if f \<in> undeletable s then (Inl (PermissionError f), s)
      else (Inr (), s\<lparr>files := (files s)(f := None)\<rparr>))"

definition mkstemp :: "world \<Rightarrow> (error + nat \<times> string) \<times> world" where
  "mkstemp s =
     (case tmp_supply s of
        [] \<Rightarrow> (Inl (OSError ''mkstemp''), s)
      | (h, f) # rest \<Rightarrow>
          (Inr (h, f),
           s\<lparr>files := (files s)(f \<mapsto> []), fds := insert h (fds s), tmp_supply := rest\<rparr>))"

text \<open>
  \<open>with open(filename, 'w', encoding='utf-8') as f: f.write(text)\<close>, where
  \<open>os.linesep\<close> is the line feed, as on POSIX systems: the text is stored as it is.
\<close>

definition write_text :: "string \<Rightarrow> ustring \<Rightarrow> world \<Rightarrow> (error + unit) \<times> world" where
  "write_text f text s =
     (if f \<in> unwritable s then (Inl (OSError f), s)
      else (Inr (), s\<lparr>files := (files s)(f \<mapsto> text)\<rparr>))"

text \<open>
  \<open>with open(filename, 'r', encoding='utf-8') as f: text = ''.join(f.readlines())\<close>,
  and beside it the reading of the whole text at once, \<open>f.read()\<close>, on a file opened
  in the same way.
\<close>

definition read_back :: "string \<Rightarrow> world \<Rightarrow> error + ustring" where
  "read_back f s =
     (case files s f of
        None \<Rightarrow> Inl (FileNotFoundError f)
      | Some content \<Rightarrow> Inr (join [] (readlines content)))"

definition read_whole :: "string \<Rightarrow> world \<Rightarrow> error + ustring" where
  "read_whole f s =
     (case files s f of
        None \<Rightarrow> Inl (FileNotFoundError f)
      | Some content \<Rightarrow> Inr (read content))"

definition proc_start :: "string \<Rightarrow> string list \<Rightarrow> world \<Rightarrow> world" where
  "proc_start executable args s = s\<lparr>procs := procs s @ [(executable, args)]\<rparr>"

definition findFirstElement :: "world \<Rightarrow> elem" where
  "findFirstElement s = focused s"

definition isNull :: "elem \<Rightarrow> world \<Rightarrow> bool" where
  "isNull e s = (case e of None \<Rightarrow> True | Some r \<Rightarrow> page s r = None)"

text \<open>
  What a backslash followed by the single character \<open>e\<close> stands for inside a
  JavaScript string literal. The escape \<open>\u\<close> with its four digits is read by
  \<open>js_string_body\<close>; the escapes \<open>\x\<close> and those with decimal digits, and line
  continuations, are outside this model and give \<open>None\<close>.
\<close>

definition js_escape_char :: "codepoint \<Rightarrow> ustring option" where
  "js_escape_char e =
     (if e = ch CHR ''n'' then Some [LF]
      else if e = ch CHR ''r'' then Some [CR]
      else if e = ch CHR ''t'' then Some [CP 0x09]
      else if e = ch CHR ''b'' then Some [CP 0x08]
      else if e = ch CHR ''f'' then Some [CP 0x0C]
      else if e = ch CHR ''v'' then Some [CP 0x0B]
      else if e \<in> set (ustr ''xu0123456789'') \<or> e \<in> {LF, CR, LS, PS} then None
      else Some [e])"

text \<open>The value of a hexadecimal digit, and the code point that four of them name.\<close>

definition hex_digit :: "codepoint \<Rightarrow> nat option" where
  "hex_digit c =
     (case c of CP n \<Rightarrow>
        if 48 \<le> n \<and> n \<le> 57 then Some (n - 48)
        else if 97 \<le> n \<and> n \<le> 102 then Some (n - 87)
        else if 65 \<le> n \<and> n \<le> 70 then Some (n - 55)
        else None)"

definition hex4 :: "codepoint \<Rightarrow> codepoint \<Rightarrow> codepoint \<Rightarrow> codepoint \<Rightarrow> codepoint option" where
  "hex4 h1 h2 h3 h4 =
     (case hex_digit h1 of None \<Rightarrow> None | Some a \<Rightarrow>
      case hex_digit h2 of None \<Rightarrow> None | Some b \<Rightarrow>
      case hex_digit h3 of None \<Rightarrow> None | Some c \<Rightarrow>
      case hex_digit h4 of None \<Rightarrow> None | Some d \<Rightarrow>
        Some (CP (((a * 16 + b) * 16 + c) * 16 + d)))"

text \<open>
  The rest of a single-quoted JavaScript string literal after its opening quote: the
  string it denotes and the script text after the closing quote. A line terminator
  (line feed, carriage return, U+2028, U+2029) inside the literal, or a literal that is
  never closed, is a syntax error (\<open>None\<close>).
\<close>

fun js_string_body :: "ustring \<Rightarrow> (ustring \<times> ustring) option" where
  "js_string_body [] = None"
| "js_string_body [c] = (if c = squote then Some ([], []) else None)"
| "js_string_body (c # e # rest) =
     (if c = squote then Some ([], e # rest)
      else if c \<in> {LF, CR, LS, PS} then None
      else if c = backslash then
        (if e = ch CHR ''u'' then
           (case rest of
              h1 # h2 # h3 # h4 # rest' \<Rightarrow>
                (case hex4 h1 h2 h3 h4 of
                   None \<Rightarrow> None
                 | Some d \<Rightarrow> map_option (\<lambda>(v, r). (d # v, r)) (js_string_body rest'))
            | _ \<Rightarrow> None)
         else
           (case js_escape_char e of
              None \<Rightarrow> None
            | Some d \<Rightarrow> map_option (\<lambda>(v, r). (d @ v, r)) (js_string_body rest)))
      else map_option (\<lambda>(v, r). (c # v, r)) (js_string_body (e # rest)))"

text \<open>
  \<open>elem.evaluateJavaScript(script)\<close> for the two scripts the commands run: \<open>this.value\<close>
  reads the element's value, \<open>this.value='...'\<close> assigns the string the literal
  denotes. A script that does not parse, or a null element, changes nothing and gives
  no value.
\<close>

definition evaluateJavaScript :: "elem \<Rightarrow> ustring \<Rightarrow> world \<Rightarrow> ustring option \<times> world" where
  "evaluateJavaScript e script s =
     (case e of
        None \<Rightarrow> (None, s)
      | Some r \<Rightarrow>
          if page s r = None then (None, s)
          else if script = ustr ''this.value'' then (page s r, s)
          else if take 12 script = ustr ''this.value='' @ [squote] then
            (case js_string_body (drop 12 script) of
               Some (v, []) \<Rightarrow> (Some v, s\<lparr>page := (page s)(r \<mapsto> v)\<rparr>)
             | _ \<Rightarrow> (None, s))
          else (None, s))"

subsection \<open>\<open>webelem.javascript_escape\<close>\<close>

text \<open>
  Modelled from the spec: the escape of one character by \<open>webelem.javascript_escape\<close>,
  a function of \<open>qutebrowser/utils/webelem.py\<close>, which is missing from the sources
  under study. The specification asks that the escaping neutralise any character that
  could terminate the injection context. The context is the single-quoted literal of
  \<open>this.value='{}'\<close>: the quote closes it, a line terminator breaks it, and the
  backslash starts an escape. Each of them is written as its backslash escape; every
  other character stays.
\<close>

definition escape_char :: "codepoint \<Rightarrow> ustring" where
  "escape_char c =
     (if c = backslash then [backslash, backslash]
      else if c = squote then [backslash, squote]
      else if c = LF then [backslash, ch CHR ''n'']
      else if c = CR then [backslash, ch CHR ''r'']
      else if c = LS then backslash # ustr ''u2028''
      else if c = PS then backslash # ustr ''u2029''
      else [c])"

text \<open>
  Modelled from the spec: \<open>webelem.javascript_escape\<close> itself, missing with
  \<open>qutebrowser/utils/webelem.py\<close>: it "escapes the text for safe injection into the
  element", character by character.
\<close>

definition javascript_escape :: "ustring \<Rightarrow> ustring" where
  "javascript_escape text = concat (map escape_char text)"

subsection \<open>The commands\<close>

text \<open>\<open>"this.value='{}'".format(text)\<close>\<close>

definition set_value_script :: "ustring \<Rightarrow> ustring" where
  "set_value_script text = ustr ''this.value='' @ [squote] @ text @ [squote]"

text \<open>\<open>editor\<close>: open an external editor with the current form field.\<close>

definition editor :: "world \<Rightarrow> (error + unit) \<times> world" where
  "editor s =
     (let elem = findFirstElement s in
      if isNull elem s then (Inl (CommandError ''No editable element focused!''), s)
      else
        (case mkstemp s of
           (Inl e, s1) \<Rightarrow> (Inl e, s1)
         | (Inr (oshandle, filename), s1) \<Rightarrow>
             (case evaluateJavaScript elem (ustr ''this.value'') s1 of
                (text, s2) \<Rightarrow>
                  (case (if text \<noteq> None \<and> text \<noteq> Some []
                         then write_text filename (the text) s2 else (Inr (), s2)) of
                     (Inl e, s3) \<Rightarrow> (Inl e, s3)
                   | (Inr _, s3) \<Rightarrow>
                       (case config_editor s3 of
                          [] \<Rightarrow> (Inl IndexError, s3)
                        | executable # rest \<Rightarrow>
                            (Inr (),
                             proc_start executable
                               (map (replace ''{}'' filename) rest) s3))))))"

text \<open>\<open>_editor_cleanup\<close>: clean up the temporary file.\<close>

definition editor_cleanup :: "nat \<Rightarrow> string \<Rightarrow> world \<Rightarrow> (error + unit) \<times> world" where
  "editor_cleanup oshandle filename s =
     (case os_close oshandle s of
        (Inl e, s1) \<Rightarrow> (Inl e, s1)
      | (Inr _, s1) \<Rightarrow>
          (case os_remove filename s1 of
             (Inl (PermissionError _), s2) \<Rightarrow>
               (Inl (CommandError ''Failed to delete tempfile...''), s2)
           | (r, s2) \<Rightarrow> (r, s2)))"

text \<open>
  \<open>on_editor_closed\<close>: write the editor text into the form field and clean up the
  temporary file.
\<close>

definition on_editor_closed ::
  "elem \<Rightarrow> nat \<Rightarrow> string \<Rightarrow> int \<Rightarrow> exit_status \<Rightarrow> world \<Rightarrow> (error + unit) \<times> world" where
  "on_editor_closed elem oshandle filename exitcode exitstatus s =
     (if exitcode \<noteq> 0 then
        (Inl (CommandError
           (''Editor did quit abnormally (status '' @ str_int exitcode @ '')!'')), s)
      else if exitstatus \<noteq> NormalExit then (Inr (), s)
      else if isNull elem s then (Inl (CommandError ''Element vanished while editing!''), s)
      else
        (case read_back filename s of
           Inl e \<Rightarrow> (Inl e, s)
         | Inr text \<Rightarrow>
             (case evaluateJavaScript elem (set_value_script (javascript_escape text)) s of
                (_, s1) \<Rightarrow> editor_cleanup oshandle filename s1)))"

text \<open>
  The values of \<open>QProcess.ProcessError\<close>, and the \<open>messages\<close> dictionary of
  \<open>on_editor_error\<close>.
\<close>

definition FailedToStart :: int where "FailedToStart = 0"
definition Crashed :: int where "Crashed = 1"
definition Timedout :: int where "Timedout = 2"
definition ReadError :: int where "ReadError = 3"
definition WriteError :: int where "WriteError = 4"
definition UnknownError :: int where "UnknownError = 5"

definition messages :: "int \<rightharpoonup> string" where
  "messages =
     [FailedToStart \<mapsto> ''The process failed to start.'',
      Crashed \<mapsto> ''The process crashed.'',
      Timedout \<mapsto> ''The last waitFor...() function timed out.'',
      WriteError \<mapsto> ''An error occurred when attempting to write to the process.'',
      ReadError \<mapsto> ''An error occurred when attempting to read from the process.'',
      UnknownError \<mapsto> ''An unknown error occurred.'']"

text \<open>\<open>on_editor_error\<close>: display an error message and clean up when the editor crashed.\<close>

definition on_editor_error :: "nat \<Rightarrow> string \<Rightarrow> int \<Rightarrow> world \<Rightarrow> (error + unit) \<times> world" where
  "on_editor_error oshandle filename err s =
     (case editor_cleanup oshandle filename s of
        (Inl e, s1) \<Rightarrow> (Inl e, s1)
      | (Inr _, s1) \<Rightarrow>
          (case messages err of
             None \<Rightarrow> (Inl (KeyError err), s1)
           | Some m \<Rightarrow> (Inl (CommandError (''Error while calling editor: '' @ m)), s1)))"

subsection \<open>Two concrete worlds\<close>

text \<open>
  \<open>w_start\<close>: a text field holding \<open>hello\<close> has the focus and no editor has been
  opened yet. \<open>w_running\<close>: the editor has been started on that field and has saved
  the text \<open>don't\<close> with a newline to the temporary file.
\<close>

definition w_start :: world where
  "w_start =
     \<lparr>files = Map.empty, undeletable = {}, unwritable = {}, fds = {0, 1, 2},
      tmp_supply = [(7, ''/tmp/tmpab12'')], page = [3 \<mapsto> ustr ''hello''], focused = Some 3,
      config_editor = [''gvim'', ''-f'', ''{}'', ''--cmd=e {}|w {}''], procs = []\<rparr>"

definition w_running :: world where
  "w_running =
     \<lparr>files = Map.empty(''/tmp/tmpab12'' \<mapsto> ustr ''don'' @ [squote] @ ustr ''t'' @ [LF]),
      undeletable = {}, unwritable = {}, fds = {0, 1, 2, 7},
      tmp_supply = [], page = [3 \<mapsto> ustr ''hello''], focused = Some 3,
      config_editor = [''gvim'', ''-f'', ''{}'', ''--cmd=e {}|w {}''],
      procs = [(''gvim'', [''-f'', ''/tmp/tmpab12'', ''--cmd=e /tmp/tmpab12|w /tmp/tmpab12''])]\<rparr>"

section \<open>Properties\<close>

subsection \<open>Strings\<close>

lemma join_empty_sep: "join [] xs = concat xs"
  by (induction xs rule: induct_list012) simp_all

lemma concat_split_lines: "concat (split_lines s) = s"
  by (induction s) (auto split: list.splits)

lemma join_readlines: "join [] (readlines content) = read content"
  by (simp add: join_empty_sep concat_split_lines readlines_def read_def)

lemma universal_newlines_no_CR: "CR \<notin> set s \<Longrightarrow> universal_newlines s = s"
  by (induction s rule: universal_newlines.induct) auto

lemma universal_newlines_CR_free: "CR \<notin> set (universal_newlines s)"
  by (induction s rule: universal_newlines.induct) auto

lemma replace_Cons_no_match:
  assumes "old \<noteq> []" "\<not> prefix old (c # cs)"
  shows "replace old new (c # cs) = c # replace old new cs"
proof -
  have "take (length old) (c # cs) \<noteq> old"
    using assms(2) by (metis take_is_prefix)
  with assms(1) show ?thesis by simp
qed

lemma replace_match:
  assumes "old \<noteq> []"
  shows "replace old new (old @ rest) = new @ replace old new rest"
proof (cases old)
  case Nil
  with assms show ?thesis by simp
next
  case (Cons c cs)
  have "replace old new ((c # cs) @ rest) = new @ replace old new rest"
    unfolding append_Cons by (subst replace.simps) (simp add: Cons)
  then show ?thesis by (simp add: Cons)
qed

lemma no_prefix_before_placeholder:
  assumes "\<not> sublist ''{}'' (c # g)"
  shows "\<not> prefix ''{}'' ((c # g) @ ''{}'' @ rest)"
proof (cases g)
  case Nil
  then show ?thesis by (simp add: prefix_def)
next
  case (Cons d g')
  with assms have "\<not> prefix ''{}'' (c # d # g')"
    by (simp add: sublist_Cons_right)
  then show ?thesis by (simp add: Cons prefix_def)
qed

lemma replace_no_occurrence:
  "\<not> sublist ''{}'' g \<Longrightarrow> replace ''{}'' fn g = g"
proof (induction g)
  case Nil
  then show ?case by simp
next
  case (Cons c g)
  from Cons.prems have tl: "\<not> sublist ''{}'' g" and hd: "\<not> prefix ''{}'' (c # g)"
    by (auto simp: sublist_Cons_right)
  show ?case
    using replace_Cons_no_match [OF _ hd, of fn] Cons.IH [OF tl] by simp
qed

lemma replace_segment:
  "\<not> sublist ''{}'' g \<Longrightarrow>
     replace ''{}'' fn (g @ ''{}'' @ rest) = g @ fn @ replace ''{}'' fn rest"
proof (induction g)
  case Nil
  show ?case using replace_match [of "''{}''" fn rest] by simp
next
  case (Cons c g)
  from Cons.prems have tl: "\<not> sublist ''{}'' g"
    by (auto simp: sublist_Cons_right)
  have "replace ''{}'' fn (c # (g @ ''{}'' @ rest)) = c # replace ''{}'' fn (g @ ''{}'' @ rest)"
    using no_prefix_before_placeholder [OF Cons.prems, of rest]
    by (intro replace_Cons_no_match) simp_all
  with Cons.IH [OF tl] show ?case by simp
qed

lemma replace_join:
  "\<forall>g \<in> set segs. \<not> sublist ''{}'' g \<Longrightarrow>
     replace ''{}'' fn (join ''{}'' segs) = join fn segs"
proof (induction segs rule: induct_list012)
  case 1
  then show ?case by simp
next
  case (2 g)
  then show ?case by (simp add: replace_no_occurrence)
next
  case (3 g g' gs)
  have "replace ''{}'' fn (join ''{}'' (g # g' # gs))
      = g @ fn @ replace ''{}'' fn (join ''{}'' (g' # gs))"
    unfolding join.simps using "3.prems" by (intro replace_segment) simp
  with 3 show ?case by simp
qed

lemma placeholder_segments_exist:
  "\<exists>segs. segs \<noteq> [] \<and> arg = join ''{}'' segs \<and> (\<forall>g \<in> set segs. \<not> sublist ''{}'' g)"
proof (induction arg)
  case Nil
  have "[] = join ''{}'' [Nil] \<and> (\<forall>g \<in> set [Nil :: string]. \<not> sublist ''{}'' g)" by simp
  then show ?case by blast
next
  case (Cons c cs)
  then obtain g gs where cs: "cs = join ''{}'' (g # gs)"
    and clean: "\<not> sublist ''{}'' g" "\<forall>g \<in> set gs. \<not> sublist ''{}'' g"
    by (metis list.exhaust list.set_intros(1,2))
  have split: "join ''{}'' ((c # g) # gs) = c # join ''{}'' (g # gs)"
    by (cases gs) simp_all
  show ?case
  proof (cases "prefix ''{}'' (c # g)")
    case True
    then obtain g' where g: "g = CHR ''}'' # g'" and c: "c = CHR ''{''"
      by (auto simp: prefix_def)
    from clean(1) g have "\<not> sublist ''{}'' g'"
      by (simp add: sublist_Cons_right)
    moreover have "c # cs = join ''{}'' ([] # g' # gs)"
      using cs g c by (cases gs) simp_all
    ultimately have "[] # g' # gs \<noteq> [] \<and> c # cs = join ''{}'' ([] # g' # gs)
        \<and> (\<forall>x \<in> set ([] # g' # gs). \<not> sublist ''{}'' x)"
      using clean(2) by simp
    then show ?thesis by blast
  next
    case False
    with clean(1) have "\<not> sublist ''{}'' (c # g)"
      by (simp add: sublist_Cons_right)
    with clean(2) cs split
    have "(c # g) # gs \<noteq> [] \<and> c # cs = join ''{}'' ((c # g) # gs)
        \<and> (\<forall>x \<in> set ((c # g) # gs). \<not> sublist ''{}'' x)"
      by simp
    then show ?thesis by blast
  qed
qed

subsection \<open>Cleanup and the page\<close>

lemma editor_cleanup_page: "editor_cleanup h f s = (r, s') \<Longrightarrow> page s' = page s"
  by (auto simp: editor_cleanup_def os_close_def os_remove_def
           split: if_splits prod.splits sum.splits error.splits)

lemma editor_cleanup_denied:
  assumes "h \<in> fds s" "files s f \<noteq> None" "f \<in> undeletable s"
  shows "editor_cleanup h f s
           = (Inl (CommandError ''Failed to delete tempfile...''), s\<lparr>fds := fds s - {h}\<rparr>)"
  using assms by (auto simp: editor_cleanup_def os_close_def os_remove_def)

lemma evaluateJavaScript_frame:
  "files (snd (evaluateJavaScript e script s)) = files s"
  "undeletable (snd (evaluateJavaScript e script s)) = undeletable s"
  "fds (snd (evaluateJavaScript e script s)) = fds s"
  by (simp_all add: evaluateJavaScript_def split: option.splits list.splits prod.splits)

lemmas process_error_defs =
  FailedToStart_def Crashed_def Timedout_def ReadError_def WriteError_def UnknownError_def

subsection \<open>String literals of JavaScript\<close>

lemma js_string_body_plain:
  assumes "xs \<noteq> []" "c \<noteq> squote" "c \<notin> {LF, CR, LS, PS}" "c \<noteq> backslash"
  shows "js_string_body (c # xs) = map_option (\<lambda>(v, r). (c # v, r)) (js_string_body xs)"
  using assms by (cases xs) auto

lemma js_string_body_simple_escape:
  assumes "e \<noteq> ch CHR ''u''" "js_escape_char e = Some d"
  shows "js_string_body (backslash # e # xs)
           = map_option (\<lambda>(v, r). (d @ v, r)) (js_string_body xs)"
  using assms by simp

lemma js_string_body_unicode_escape:
  assumes "hex4 h1 h2 h3 h4 = Some d"
  shows "js_string_body (backslash # ch CHR ''u'' # h1 # h2 # h3 # h4 # xs)
           = map_option (\<lambda>(v, r). (d # v, r)) (js_string_body xs)"
  using assms by simp

lemma js_string_body_escape_char:
  assumes "js_string_body xs = Some (t, rest)" "xs \<noteq> []"
  shows "js_string_body (escape_char c @ xs) = Some (c # t, rest)"
proof -
  consider "c = backslash" | "c = squote" | "c = LF" | "c = CR" | "c = LS" | "c = PS"
    | "c \<noteq> backslash" "c \<noteq> squote" "c \<notin> {LF, CR, LS, PS}"
    by blast
  then show ?thesis
  proof cases
    case 1
    then show ?thesis
      using assms js_string_body_simple_escape [of backslash "[backslash]" xs]
      by (simp add: escape_char_def js_escape_char_def ustr_def del: js_string_body.simps)
  next
    case 2
    then show ?thesis
      using assms js_string_body_simple_escape [of squote "[squote]" xs]
      by (simp add: escape_char_def js_escape_char_def ustr_def del: js_string_body.simps)
  next
    case 3
    then show ?thesis
      using assms js_string_body_simple_escape [of "ch CHR ''n''" "[LF]" xs]
      by (simp add: escape_char_def js_escape_char_def del: js_string_body.simps)
  next
    case 4
    then show ?thesis
      using assms js_string_body_simple_escape [of "ch CHR ''r''" "[CR]" xs]
      by (simp add: escape_char_def js_escape_char_def del: js_string_body.simps)
  next
    case 5
    have "hex4 (ch CHR ''2'') (ch CHR ''0'') (ch CHR ''2'') (ch CHR ''8'') = Some LS"
      by (simp add: hex4_def hex_digit_def)
    from js_string_body_unicode_escape [OF this, of xs] 5 assms show ?thesis
      by (simp add: escape_char_def ustr_def del: js_string_body.simps)
  next
    case 6
    have "hex4 (ch CHR ''2'') (ch CHR ''0'') (ch CHR ''2'') (ch CHR ''9'') = Some PS"
      by (simp add: hex4_def hex_digit_def)
    from js_string_body_unicode_escape [OF this, of xs] 6 assms show ?thesis
      by (simp add: escape_char_def ustr_def del: js_string_body.simps)
  next
    case 7
    then have "escape_char c = [c]"
      by (auto simp: escape_char_def)
    with 7 assms js_string_body_plain [of xs c] show ?thesis
      by (simp del: js_string_body.simps)
  qed
qed

lemma js_string_body_escape:
  "js_string_body (javascript_escape t @ squote # rest) = Some (t, rest)"
proof (induction t)
  case Nil
  then show ?case by (cases rest) (simp_all add: javascript_escape_def)
next
  case (Cons c t)
  have step: "javascript_escape (c # t) @ squote # rest
      = escape_char c @ (javascript_escape t @ squote # rest)"
    by (simp add: javascript_escape_def)
  show ?case
    unfolding step by (rule js_string_body_escape_char [OF Cons.IH]) simp
qed

lemma write_back_value:
  assumes "page s r \<noteq> None"
  shows "evaluateJavaScript (Some r) (set_value_script (javascript_escape t)) s
           = (Some t, s\<lparr>page := (page s)(r \<mapsto> t)\<rparr>)"
proof -
  have "js_string_body (javascript_escape t @ [squote]) = Some (t, [])"
    by (rule js_string_body_escape)
  with assms show ?thesis
    by (simp add: evaluateJavaScript_def set_value_script_def ustr_def)
qed

subsection \<open>Reading the file back\<close>

text \<open>
  C10, as stated, fails: the read-back does not keep every character of every file. A
  file that holds \<open>a\<close>, carriage return, line feed, \<open>b\<close> is read back as \<open>a\<close>, line
  feed, \<open>b\<close>.
\<close>

theorem read_back_counterexample:
  "read_back ''/tmp/tmpab12''
     (w_running\<lparr>files := Map.empty(''/tmp/tmpab12'' \<mapsto> ustr ''a'' @ [CR, LF] @ ustr ''b'')\<rparr>)
     = Inr (ustr ''a'' @ [LF] @ ustr ''b'')
   \<and> ustr ''a'' @ [LF] @ ustr ''b'' \<noteq> ustr ''a'' @ [CR, LF] @ ustr ''b''"
  by (simp add: read_back_def readlines_def ustr_def)

text \<open>
  C10, amended. The read-back of \<open>on_editor_closed\<close>, \<open>''.join(f.readlines())\<close>, is the
  reading of the whole file as one string with \<open>f.read()\<close>, and a missing file fails in
  the same way: it gives the text of the file with every carriage return and line
  feed pair, and every other carriage return, turned into one line feed, and nothing
  else changed. For a file without carriage return, the empty file too, it gives the
  stored text exactly.
\<close>

theorem read_back_is_read_whole:
  "read_back f s = read_whole f s
   \<and> (\<forall>content. files s f = Some content \<longrightarrow>
         read_back f s = Inr (universal_newlines content)
         \<and> (CR \<notin> set content \<longrightarrow> read_back f s = Inr content))"
  by (auto simp: read_back_def read_whole_def join_readlines read_def universal_newlines_no_CR
        split: option.splits)

theorem read_back_is_read_whole_witness:
  "read_back ''/tmp/tmpab12'' w_running = Inr (ustr ''don'' @ [squote] @ ustr ''t'' @ [LF])
   \<and> read_back ''/tmp/tmpab12'' w_running = read_whole ''/tmp/tmpab12'' w_running
   \<and> read_back ''/tmp/tmpab12'' (w_running\<lparr>files := Map.empty(''/tmp/tmpab12'' \<mapsto> [])\<rparr>) = Inr []"
proof -
  let ?e = "w_running\<lparr>files := Map.empty(''/tmp/tmpab12'' \<mapsto> [])\<rparr>"
  have a: "files w_running ''/tmp/tmpab12'' = Some (ustr ''don'' @ [squote] @ ustr ''t'' @ [LF])"
    and b: "CR \<notin> set (ustr ''don'' @ [squote] @ ustr ''t'' @ [LF])"
    and c: "files ?e ''/tmp/tmpab12'' = Some []"
    by (simp_all add: w_running_def ustr_def)
  from read_back_is_read_whole [of "''/tmp/tmpab12''" w_running] a b
  have "read_back ''/tmp/tmpab12'' w_running = read_whole ''/tmp/tmpab12'' w_running"
    and "read_back ''/tmp/tmpab12'' w_running = Inr (ustr ''don'' @ [squote] @ ustr ''t'' @ [LF])"
    by blast+
  moreover from read_back_is_read_whole [of "''/tmp/tmpab12''" ?e] c
  have "read_back ''/tmp/tmpab12'' ?e = Inr (universal_newlines [])"
    by blast
  then have "read_back ''/tmp/tmpab12'' ?e = Inr []"
    by simp
  ultimately show ?thesis by blast
qed

subsection \<open>Starting the editor\<close>

text \<open>
  C4. When no editable element has the focus, \<open>editor\<close> fails with the command error
  "No editable element focused!" and leaves the world as it was: no temporary file is
  created and no process is started.
\<close>

theorem editor_no_element:
  assumes "isNull (findFirstElement s) s"
  shows "editor s = (Inl (CommandError ''No editable element focused!''), s)"
  using assms by (simp add: editor_def)

theorem editor_no_element_witness:
  "isNull (findFirstElement (w_start\<lparr>focused := None\<rparr>)) (w_start\<lparr>focused := None\<rparr>)
   \<and> editor (w_start\<lparr>focused := None\<rparr>)
       = (Inl (CommandError ''No editable element focused!''), w_start\<lparr>focused := None\<rparr>)"
proof -
  have h: "isNull (findFirstElement (w_start\<lparr>focused := None\<rparr>)) (w_start\<lparr>focused := None\<rparr>)"
    by (simp add: isNull_def findFirstElement_def)
  from h editor_no_element [OF h] show ?thesis by simp
qed

text \<open>
  C8. When \<open>editor\<close> starts the process, it passes the configured executable and,
  for every configured argument, that argument with every occurrence of the placeholder
  \<open>{}\<close> replaced by the path of the temporary file: an argument splits at its
  placeholders into segments free of the placeholder, and the argument passed is these
  segments joined by the path. An argument without placeholder is a single segment and
  is passed as it is.
\<close>

theorem editor_substitutes_placeholder:
  assumes "tmp_supply s = (h, fn) # others" "config_editor s = executable # rest"
    and "editor s = (Inr u, s')"
  shows "\<exists>args. procs s' = procs s @ [(executable, args)] \<and> length args = length rest
       \<and> (\<forall>i < length rest.
             (\<exists>segs. rest ! i = join ''{}'' segs \<and> (\<forall>g \<in> set segs. \<not> sublist ''{}'' g))
             \<and> (\<forall>segs.
                  rest ! i = join ''{}'' segs \<and> (\<forall>g \<in> set segs. \<not> sublist ''{}'' g)
                  \<longrightarrow> args ! i = join fn segs))"
proof -
  let ?args = "map (replace ''{}'' fn) rest"
  have "procs s' = procs s @ [(executable, ?args)]"
    using assms
    by (auto simp: editor_def Let_def mkstemp_def evaluateJavaScript_def write_text_def
          proc_start_def split: if_splits option.splits prod.splits sum.splits)
  moreover have "\<forall>i < length rest. \<forall>segs.
      rest ! i = join ''{}'' segs \<and> (\<forall>g \<in> set segs. \<not> sublist ''{}'' g)
      \<longrightarrow> ?args ! i = join fn segs"
    by (simp add: replace_join)
  moreover have "\<forall>i < length rest.
      \<exists>segs. rest ! i = join ''{}'' segs \<and> (\<forall>g \<in> set segs. \<not> sublist ''{}'' g)"
    using placeholder_segments_exist by blast
  ultimately show ?thesis by simp
qed

theorem editor_substitutes_placeholder_witness:
  "\<exists>args. procs (snd (editor w_start)) = [(''gvim'', args)]
     \<and> args ! 0 = ''-f'' \<and> args ! 1 = ''/tmp/tmpab12''
     \<and> args ! 2 = ''--cmd=e /tmp/tmpab12|w /tmp/tmpab12''"
proof -
  let ?rest = "[''-f'', ''{}'', ''--cmd=e {}|w {}'']"
  have a: "tmp_supply w_start = (7, ''/tmp/tmpab12'') # []"
    "config_editor w_start = ''gvim'' # ?rest"
    by (simp_all add: w_start_def)
  have r: "fst (editor w_start) = Inr ()"
    by (simp add: editor_def isNull_def findFirstElement_def mkstemp_def
          evaluateJavaScript_def write_text_def w_start_def ustr_def)
  then have b: "editor w_start = (Inr (), snd (editor w_start))"
    by (metis prod.collapse)
  from editor_substitutes_placeholder [OF a b]
  obtain args where p: "procs (snd (editor w_start)) = procs w_start @ [(''gvim'', args)]"
    and sub: "\<And>i segs. i < length ?rest \<Longrightarrow> ?rest ! i = join ''{}'' segs \<Longrightarrow>
            (\<forall>g \<in> set segs. \<not> sublist ''{}'' g) \<Longrightarrow> args ! i = join ''/tmp/tmpab12'' segs"
    by blast
  have "args ! 0 = join ''/tmp/tmpab12'' [''-f'']"
    by (rule sub) (simp_all add: sublist_Cons_right)
  moreover have "args ! 1 = join ''/tmp/tmpab12'' [Nil, Nil]"
    by (rule sub) (simp_all add: sublist_Cons_right)
  moreover have "args ! 2 = join ''/tmp/tmpab12'' [''--cmd=e '', ''|w '', Nil]"
    by (rule sub) (simp_all add: sublist_Cons_right)
  moreover have "procs w_start = []" by (simp add: w_start_def)
  ultimately show ?thesis using p by simp
qed




subsection \<open>The editor has exited\<close>

text \<open>
  C1. Every session that reaches a terminal state should have its temporary file
  deleted before the callback returns. The code does not do so when the editor exits
  with a non-zero code: at exit code 2 with a normal exit status \<open>on_editor_closed\<close>
  raises before it reaches the cleanup, the file is still there and the descriptor is
  still open.
\<close>

theorem nonzero_exit_keeps_tempfile:
  "on_editor_closed (Some 3) 7 ''/tmp/tmpab12'' 2 NormalExit w_running
     = (Inl (CommandError ''Editor did quit abnormally (status 2)!''), w_running)
   \<and> files w_running ''/tmp/tmpab12'' \<noteq> None \<and> 7 \<in> fds w_running"
  by (simp add: on_editor_closed_def str_int_def digits.simps [of 2] w_running_def)

text \<open>
  C2. After a crash the exit callback should raise no further error, whatever the exit
  code, the crash having been reported by \<open>on_editor_error\<close>. The code tests the exit
  code before the exit status: when the editor is killed by signal 11,
  \<open>on_editor_error\<close> reports the crash and cleans up, and \<open>on_editor_closed\<close>, called
  next with exit code 11 and the crash status, raises a second error. With exit code 0
  it returns silently.
\<close>

theorem crash_exit_nonzero_raises:
  "on_editor_error 7 ''/tmp/tmpab12'' Crashed w_running
     = (Inl (CommandError ''Error while calling editor: The process crashed.''),
        w_running\<lparr>fds := {0, 1, 2}, files := Map.empty\<rparr>)
   \<and> on_editor_closed (Some 3) 7 ''/tmp/tmpab12'' 11 CrashExit
        (w_running\<lparr>fds := {0, 1, 2}, files := Map.empty\<rparr>)
     = (Inl (CommandError ''Editor did quit abnormally (status 11)!''),
        w_running\<lparr>fds := {0, 1, 2}, files := Map.empty\<rparr>)
   \<and> on_editor_closed (Some 3) 7 ''/tmp/tmpab12'' 0 CrashExit
        (w_running\<lparr>fds := {0, 1, 2}, files := Map.empty\<rparr>)
     = (Inr (), w_running\<lparr>fds := {0, 1, 2}, files := Map.empty\<rparr>)"
proof -
  have "digits 11 = ''11''"
    by (simp add: digits.simps [of 11] digits.simps [of "Suc 0"])
  moreover have "on_editor_error 7 ''/tmp/tmpab12'' Crashed w_running
     = (Inl (CommandError ''Error while calling editor: The process crashed.''),
        w_running\<lparr>fds := {0, 1, 2}, files := Map.empty\<rparr>)"
    by (auto simp: on_editor_error_def editor_cleanup_def os_close_def os_remove_def
          messages_def process_error_defs w_running_def)
  ultimately show ?thesis
    by (simp add: on_editor_closed_def str_int_def)
qed

text \<open>
  C5, as stated, fails: the element does not always get exactly the text of the file.
  When the file holds \<open>a\<close>, carriage return, line feed, \<open>b\<close> at the editor's exit, the
  element's value becomes \<open>a\<close>, line feed, \<open>b\<close>.
\<close>

theorem edited_text_round_trip_counterexample:
  "files (w_running\<lparr>files := Map.empty(''/tmp/tmpab12'' \<mapsto> ustr ''a'' @ [CR, LF] @ ustr ''b'')\<rparr>)
       ''/tmp/tmpab12'' = Some (ustr ''a'' @ [CR, LF] @ ustr ''b'')
   \<and> page (snd (on_editor_closed (Some 3) 7 ''/tmp/tmpab12'' 0 NormalExit
        (w_running\<lparr>files := Map.empty(''/tmp/tmpab12'' \<mapsto> ustr ''a'' @ [CR, LF] @ ustr ''b'')\<rparr>))) 3
       = Some (ustr ''a'' @ [LF] @ ustr ''b'')"
proof -
  let ?w = "w_running\<lparr>files := Map.empty(''/tmp/tmpab12'' \<mapsto> ustr ''a'' @ [CR, LF] @ ustr ''b'')\<rparr>"
  have p: "page ?w 3 \<noteq> None"
    by (simp add: w_running_def)
  have "read_back ''/tmp/tmpab12'' ?w = Inr (ustr ''a'' @ [LF] @ ustr ''b'')"
    by (simp add: read_back_def readlines_def ustr_def)
  then show ?thesis
    using p write_back_value [OF p, of "ustr ''a'' @ [LF] @ ustr ''b''"]
    by (auto simp: on_editor_closed_def isNull_def editor_cleanup_def os_close_def
          os_remove_def w_running_def)
qed

text \<open>
  C5, amended. For every text \<open>t\<close> of the temporary file at the editor's exit, the
  empty one and those with quotes, backslashes and line terminators included: when the
  editor has exited normally with code 0 and the element is still there,
  \<open>on_editor_closed\<close> escapes the text it has read and assigns it to the element, whose
  value is then \<open>t\<close> with every carriage return and line feed pair, and every other
  carriage return, turned into one line feed; it is exactly \<open>t\<close> when \<open>t\<close> has no
  carriage return. (Here \<open>javascript_escape\<close> is the one modelled from the
  specification.)
\<close>

theorem edited_text_round_trip:
  assumes "page s r \<noteq> None" "files s f = Some t"
  shows "page (snd (on_editor_closed (Some r) h f 0 NormalExit s)) r
           = Some (universal_newlines t)
       \<and> (CR \<notin> set t \<longrightarrow>
            page (snd (on_editor_closed (Some r) h f 0 NormalExit s)) r = Some t)"
proof -
  let ?t = "universal_newlines t"
  let ?s1 = "s\<lparr>page := (page s)(r \<mapsto> ?t)\<rparr>"
  have rb: "read_back f s = Inr ?t"
    using assms(2) by (simp add: read_back_def join_readlines read_def)
  have "on_editor_closed (Some r) h f 0 NormalExit s = editor_cleanup h f ?s1"
    using assms(1) rb write_back_value [OF assms(1), of ?t]
    by (auto simp: on_editor_closed_def isNull_def)
  moreover have "page (snd (editor_cleanup h f ?s1)) = page ?s1"
    by (rule editor_cleanup_page [of h f ?s1 "fst (editor_cleanup h f ?s1)"]) simp
  ultimately have main: "page (snd (on_editor_closed (Some r) h f 0 NormalExit s)) r = Some ?t"
    by simp
  show ?thesis
  proof (intro conjI impI)
    show "page (snd (on_editor_closed (Some r) h f 0 NormalExit s)) r = Some ?t"
      by (rule main)
  next
    assume "CR \<notin> set t"
    then have "?t = t" by (rule universal_newlines_no_CR)
    with main show "page (snd (on_editor_closed (Some r) h f 0 NormalExit s)) r = Some t"
      by simp
  qed
qed

theorem edited_text_round_trip_witness:
  "page (snd (on_editor_closed (Some 3) 7 ''/tmp/tmpab12'' 0 NormalExit w_running)) 3
     = Some (ustr ''don'' @ [squote] @ ustr ''t'' @ [LF])"
proof -
  have p: "page w_running 3 \<noteq> None"
    and f: "files w_running ''/tmp/tmpab12'' = Some (ustr ''don'' @ [squote] @ ustr ''t'' @ [LF])"
    and c: "CR \<notin> set (ustr ''don'' @ [squote] @ ustr ''t'' @ [LF])"
    by (simp_all add: w_running_def ustr_def)
  from edited_text_round_trip [OF p f, of 7] c show ?thesis by blast
qed

subsection \<open>Cleanup\<close>

text \<open>
  C3, as stated, fails: a second \<open>_editor_cleanup\<close> on the same descriptor and file
  name, after a first one that completed, raises an error.
\<close>

theorem second_cleanup_counterexample:
  "fst (editor_cleanup 7 ''/tmp/tmpab12'' w_running) = Inr ()
   \<and> fst (editor_cleanup 7 ''/tmp/tmpab12'' (snd (editor_cleanup 7 ''/tmp/tmpab12'' w_running)))
       = Inl (OSError ''Bad file descriptor'')"
  by (simp add: editor_cleanup_def os_close_def os_remove_def w_running_def)

text \<open>
  C3, amended. After a cleanup that completed, a second cleanup on the same descriptor
  and file name changes nothing (it closes no descriptor and does not get as far as
  deleting), but it is not silent: \<open>os.close\<close> fails on the closed descriptor and the
  error leaves the method.
\<close>

theorem second_cleanup_fails:
  assumes "editor_cleanup h f s = (Inr u, s')"
  shows "editor_cleanup h f s' = (Inl (OSError ''Bad file descriptor''), s')"
  using assms
  by (auto simp: editor_cleanup_def os_close_def os_remove_def
           split: if_splits prod.splits sum.splits error.splits)

theorem second_cleanup_fails_witness:
  "editor_cleanup 7 ''/tmp/tmpab12'' w_running
     = (Inr (), w_running\<lparr>fds := {0, 1, 2}, files := Map.empty\<rparr>)
   \<and> editor_cleanup 7 ''/tmp/tmpab12'' (w_running\<lparr>fds := {0, 1, 2}, files := Map.empty\<rparr>)
       = (Inl (OSError ''Bad file descriptor''), w_running\<lparr>fds := {0, 1, 2}, files := Map.empty\<rparr>)"
proof -
  have h: "editor_cleanup 7 ''/tmp/tmpab12'' w_running
     = (Inr (), w_running\<lparr>fds := {0, 1, 2}, files := Map.empty\<rparr>)"
    by (auto simp: editor_cleanup_def os_close_def os_remove_def w_running_def)
  from h second_cleanup_fails [OF h] show ?thesis by simp
qed

text \<open>
  C7, as stated, fails: when the deletion is denied in \<open>on_editor_error\<close>, the
  cleanup error is the only one raised; the report of the process error (here
  "The process crashed.") is never produced.
\<close>

theorem deletion_denied_counterexample:
  "messages Crashed = Some ''The process crashed.''
   \<and> fst (on_editor_error 7 ''/tmp/tmpab12'' Crashed (w_running\<lparr>undeletable := {''/tmp/tmpab12''}\<rparr>))
       = Inl (CommandError ''Failed to delete tempfile...'')"
  by (simp add: on_editor_error_def editor_cleanup_def os_close_def os_remove_def messages_def
        process_error_defs w_running_def)

text \<open>
  C7, amended. When the deletion of the temporary file is denied: on the success path
  of \<open>on_editor_closed\<close> the cleanup error is raised only after the text read from the
  file has been written back to the element, and the write-back stays; in \<open>on_editor_error\<close> the
  cleanup runs before the process error is reported, and the cleanup error is raised
  in its place. In both the descriptor has been closed.
\<close>

theorem deletion_denied_after_write_back:
  assumes "h \<in> fds s" "files s f = Some t" "f \<in> undeletable s"
  shows "on_editor_error h f err s
           = (Inl (CommandError ''Failed to delete tempfile...''), s\<lparr>fds := fds s - {h}\<rparr>)
       \<and> (page s r \<noteq> None \<longrightarrow>
            on_editor_closed (Some r) h f 0 NormalExit s
              = (Inl (CommandError ''Failed to delete tempfile...''),
                 (snd (evaluateJavaScript (Some r) (set_value_script (javascript_escape (universal_newlines t))) s))
                   \<lparr>fds := fds s - {h}\<rparr>))"
proof (intro conjI impI)
  from assms show "on_editor_error h f err s
      = (Inl (CommandError ''Failed to delete tempfile...''), s\<lparr>fds := fds s - {h}\<rparr>)"
    by (simp add: on_editor_error_def editor_cleanup_denied)
next
  assume live: "page s r \<noteq> None"
  let ?s1 = "snd (evaluateJavaScript (Some r) (set_value_script (javascript_escape (universal_newlines t))) s)"
  have rb: "read_back f s = Inr (universal_newlines t)"
    using assms(2) by (simp add: read_back_def join_readlines read_def)
  have "editor_cleanup h f ?s1
      = (Inl (CommandError ''Failed to delete tempfile...''), ?s1\<lparr>fds := fds ?s1 - {h}\<rparr>)"
    using assms by (intro editor_cleanup_denied) (simp_all add: evaluateJavaScript_frame)
  with live rb show "on_editor_closed (Some r) h f 0 NormalExit s
      = (Inl (CommandError ''Failed to delete tempfile...''), ?s1\<lparr>fds := fds s - {h}\<rparr>)"
    by (auto simp: on_editor_closed_def isNull_def evaluateJavaScript_frame split: prod.splits)
qed

theorem deletion_denied_after_write_back_witness:
  "fst (on_editor_closed (Some 3) 7 ''/tmp/tmpab12'' 0 NormalExit
          (w_running\<lparr>undeletable := {''/tmp/tmpab12''}\<rparr>))
     = Inl (CommandError ''Failed to delete tempfile...'')
   \<and> page (snd (on_editor_closed (Some 3) 7 ''/tmp/tmpab12'' 0 NormalExit
          (w_running\<lparr>undeletable := {''/tmp/tmpab12''}\<rparr>))) 3
     = Some (ustr ''don'' @ [squote] @ ustr ''t'' @ [LF])
   \<and> fst (on_editor_error 7 ''/tmp/tmpab12'' Timedout (w_running\<lparr>undeletable := {''/tmp/tmpab12''}\<rparr>))
     = Inl (CommandError ''Failed to delete tempfile...'')"
proof -
  let ?w = "w_running\<lparr>undeletable := {''/tmp/tmpab12''}\<rparr>"
  have a: "7 \<in> fds ?w" "files ?w ''/tmp/tmpab12'' = Some (ustr ''don'' @ [squote] @ ustr ''t'' @ [LF])"
    "''/tmp/tmpab12'' \<in> undeletable ?w"
    and p: "page ?w 3 \<noteq> None"
    by (simp_all add: w_running_def)
  from deletion_denied_after_write_back [OF a, of Timedout 3] p
  show ?thesis
    by (simp add: write_back_value [OF p] ustr_def)
qed

subsection \<open>The editor process has failed\<close>

text \<open>
  C9, as stated, fails: the cleanup does not always complete before an error message
  is produced. When the deletion is denied, \<open>on_editor_error\<close> produces the message
  "Failed to delete tempfile..." while the file is still there.
\<close>

theorem on_editor_error_counterexample:
  "fst (on_editor_error 7 ''/tmp/tmpab12'' WriteError
          (w_running\<lparr>undeletable := {''/tmp/tmpab12''}\<rparr>))
     = Inl (CommandError ''Failed to delete tempfile...'')
   \<and> files (snd (on_editor_error 7 ''/tmp/tmpab12'' WriteError
          (w_running\<lparr>undeletable := {''/tmp/tmpab12''}\<rparr>))) ''/tmp/tmpab12'' \<noteq> None"
  by (simp add: on_editor_error_def editor_cleanup_def os_close_def os_remove_def
        w_running_def)

text \<open>
  C9, amended. In \<open>on_editor_error\<close> the cleanup is tried first, for every error value,
  and the message of the process error is looked up only when the cleanup has
  completed, the descriptor closed and the file deleted. The lookup succeeds exactly
  for the six values of \<open>QProcess.ProcessError\<close>; for any other value it fails with
  \<open>KeyError\<close>, after the cleanup. When the cleanup fails, its own error is raised and
  there is no lookup: on a descriptor that is not open nothing has changed; on a
  missing file the descriptor has been closed; when the deletion is denied the
  descriptor has been closed, the file is still there and the message is
  "Failed to delete tempfile...".
\<close>

theorem on_editor_error_cleanup_first:
  "on_editor_error h f err s =
     (if h \<notin> fds s then (Inl (OSError ''Bad file descriptor''), s)
      else if files s f = None then (Inl (FileNotFoundError f), s\<lparr>fds := fds s - {h}\<rparr>)
      else if f \<in> undeletable s
        then (Inl (CommandError ''Failed to delete tempfile...''), s\<lparr>fds := fds s - {h}\<rparr>)
      else (case messages err of
              Some m \<Rightarrow> Inl (CommandError (''Error while calling editor: '' @ m))
            | None \<Rightarrow> Inl (KeyError err),
            s\<lparr>fds := fds s - {h}, files := (files s)(f := None)\<rparr>))
   \<and> dom messages = {FailedToStart, Crashed, Timedout, WriteError, ReadError, UnknownError}"
proof
  show "on_editor_error h f err s =
     (if h \<notin> fds s then (Inl (OSError ''Bad file descriptor''), s)
      else if files s f = None then (Inl (FileNotFoundError f), s\<lparr>fds := fds s - {h}\<rparr>)
      else if f \<in> undeletable s
        then (Inl (CommandError ''Failed to delete tempfile...''), s\<lparr>fds := fds s - {h}\<rparr>)
      else (case messages err of
              Some m \<Rightarrow> Inl (CommandError (''Error while calling editor: '' @ m))
            | None \<Rightarrow> Inl (KeyError err),
            s\<lparr>fds := fds s - {h}, files := (files s)(f := None)\<rparr>))"
    by (auto simp: on_editor_error_def editor_cleanup_def os_close_def os_remove_def
          split: option.splits)
  show "dom messages = {FailedToStart, Crashed, Timedout, WriteError, ReadError, UnknownError}"
    by (auto simp: messages_def process_error_defs split: if_splits)
qed

theorem on_editor_error_cleanup_first_witness:
  "on_editor_error 7 ''/tmp/tmpab12'' 6 w_running
     = (Inl (KeyError 6), w_running\<lparr>fds := {0, 1, 2}, files := Map.empty\<rparr>)
   \<and> on_editor_error 7 ''/tmp/tmpab12'' Timedout w_running
     = (Inl (CommandError ''Error while calling editor: The last waitFor...() function timed out.''),
        w_running\<lparr>fds := {0, 1, 2}, files := Map.empty\<rparr>)
   \<and> on_editor_error 7 ''/tmp/tmpab12'' Crashed (w_running\<lparr>fds := {0, 1, 2}\<rparr>)
     = (Inl (OSError ''Bad file descriptor''), w_running\<lparr>fds := {0, 1, 2}\<rparr>)"
proof -
  have m: "messages 6 = None"
    "messages Timedout = Some ''The last waitFor...() function timed out.''"
    by (simp_all add: messages_def process_error_defs)
  have w: "7 \<in> fds w_running" "files w_running ''/tmp/tmpab12'' \<noteq> None"
    "''/tmp/tmpab12'' \<notin> undeletable w_running" "7 \<notin> fds (w_running\<lparr>fds := {0, 1, 2}\<rparr>)"
    "w_running\<lparr>fds := fds w_running - {7}, files := (files w_running)(''/tmp/tmpab12'' := None)\<rparr>
       = w_running\<lparr>fds := {0, 1, 2}, files := Map.empty\<rparr>"
    by (auto simp: w_running_def)
  from on_editor_error_cleanup_first [of 7 "''/tmp/tmpab12''" 6 w_running]
    on_editor_error_cleanup_first [of 7 "''/tmp/tmpab12''" Timedout w_running]
    on_editor_error_cleanup_first [of 7 "''/tmp/tmpab12''" Crashed "w_running\<lparr>fds := {0, 1, 2}\<rparr>"]
    m w
  show ?thesis by simp
qed

end
